theory Spec2Isabelle
  imports Complex_Main "HOL-Library.AList"
begin

section \<open>Data model\<close>

text \<open>
  The program is a set of HTTP handlers (\<^verbatim>\<open>src/main.py\<close>) in front of an external
  search engine, and a bootstrap routine run once at start-up.

  Python's \<^verbatim>\<open>float\<close> is the type parameter \<open>'f\<close>: the program never computes
  with the floats of a product or of a query, it stores and formats them. Python's
  \<^verbatim>\<open>int\<close> is \<open>int\<close>. The only arithmetic on a non-integer is the retry delay of the
  bootstrap (\<open>2\<close>, times \<open>1.5\<close> at most nine times): these values are
  \<open>3 ^ k / 2 ^ (k - 1)\<close> with \<open>k \<le> 9\<close>, which binary floating point represents
  exactly, so the delay is a \<open>rat\<close>.
\<close>

text \<open>The pydantic model \<^verbatim>\<open>Product\<close>, which is also the shape of a stored document.
  Its fields carry the prefix \<open>p_\<close> (\<open>id\<close> and \<open>name\<close> are taken).\<close>

record 'f Product =
  p_id :: string
  p_name :: string
  p_description :: string
  p_category :: string
  p_price :: 'f
  p_rating :: 'f
  p_tags :: "string list"

text \<open>The pydantic model \<^verbatim>\<open>SearchQuery\<close>: the three filters default to \<^verbatim>\<open>None\<close>.\<close>

record 'f SearchQuery =
  query :: string
  category :: "string option"
  min_price :: "'f option"
  max_price :: "'f option"

text \<open>
  The engine's result structures, with the keys the handlers read. A key read with
  \<^verbatim>\<open>d['k']\<close> is a field; a key read with \<^verbatim>\<open>d.get('k', default)\<close> or tested
  with \<^verbatim>\<open>'k' in d\<close> is an optional field.
\<close>

record field =
  f_name :: string
  f_type :: string
  f_facet :: "bool option"

record collection =
  c_name :: string
  c_fields :: "field list option"
  c_default_sorting_field :: "string option"

record facet_count =
  fc_value :: string
  fc_count :: int

record facet =
  field_name :: string
  counts :: "facet_count list"

record 'f hit =
  document :: "'f Product"

record 'f search_result =
  found :: int
  hits :: "'f hit list"
  facet_counts :: "facet list option"
  search_time_ms :: "int option"

text \<open>
  Python values that the handlers build (dict and list literals, the parameters of a
  search) or pass through from the engine. A dict is an association list in insertion
  order.
\<close>

datatype 'f pyvalue =
    VStr string
  | VInt int
  | VBool bool
  | VList "'f pyvalue list"
  | VDict "(string \<times> 'f pyvalue) list"
  | VDocument "'f Product"
  | VHit "'f hit"
  | VCollection collection

section \<open>Exceptions\<close>

text \<open>
  What a \<^verbatim>\<open>try\<close> block of the program can catch: a failure of a call to the engine
  (the client raises its not-found error or any other error, each with a message), and
  the two errors that the interpreter raises in a handler's own code.
\<close>

datatype exn =
    ObjectNotFound string
  | EngineError string
  | ZeroDivisionError
  | KeyError string

text \<open>\<^verbatim>\<open>str(e)\<close>, which is what \<^verbatim>\<open>f"...{e}"\<close> interpolates. The text of the division
  error and the quoting of a missing key are the interpreter's.\<close>

fun str_exn :: "exn \<Rightarrow> string" where
  "str_exn (ObjectNotFound m) = m"
| "str_exn (EngineError m) = m"
| "str_exn ZeroDivisionError = ''integer division or modulo by zero''"
| "str_exn (KeyError k) = [CHR 0x27] @ k @ [CHR 0x27]"

datatype http_exception = HTTPException (status_code: nat) (detail: string)

text \<open>The status of the response that the web framework sends: that of a raised
  \<^verbatim>\<open>HTTPException\<close>, 200 for a handler that returns.\<close>

fun response_status :: "http_exception + 'a \<Rightarrow> nat" where
  "response_status (Inl h) = status_code h"
| "response_status (Inr v) = 200"

section \<open>The external engine\<close>

text \<open>The calls of the client that the program makes.\<close>

datatype 'f call =
    CollectionsRetrieve
  | CollectionsCreate collection
  | CollectionRetrieve string
  | CollectionDelete string
  | DocumentsSearch string "(string \<times> 'f pyvalue) list"
  | DocumentsCreate string "'f Product"
  | DocumentsImport string "'f Product list"
  | DocumentRetrieve string string
  | DocumentDelete string string

text \<open>Lines written with \<^verbatim>\<open>print\<close>, with the values their f-strings interpolate.\<close>

datatype log_line =
    Connected nat
  | AttemptFailed nat string rat
  | ConnectFailed nat string
  | SetupCompleted
  | SetupError string

text \<open>
  What the program does to the world, in order: a call to the engine with the failure
  it raised (\<open>None\<close> when it returned), a \<^verbatim>\<open>time.sleep\<close>, a printed line.
\<close>

datatype 'f event =
    Call "'f call" "exn option"
  | Sleep rat
  | Print log_line

text \<open>
  The engine is outside the program. It is a parameter: for each call of the client, a
  function from the events so far and the call's arguments to a failure or a result, so
  that the same call may fail once and succeed later.
\<close>

record 'f engine =
  collections_retrieve :: "'f event list \<Rightarrow> exn + collection list"
  collections_create :: "'f event list \<Rightarrow> collection \<Rightarrow> exn + collection"
  collection_retrieve :: "'f event list \<Rightarrow> string \<Rightarrow> exn + collection"
  collection_delete :: "'f event list \<Rightarrow> string \<Rightarrow> exn + collection"
  documents_search ::
    "'f event list \<Rightarrow> string \<Rightarrow> (string \<times> 'f pyvalue) list \<Rightarrow> exn + 'f search_result"
  documents_create :: "'f event list \<Rightarrow> string \<Rightarrow> 'f Product \<Rightarrow> exn + 'f Product"
  documents_import :: "'f event list \<Rightarrow> string \<Rightarrow> 'f Product list \<Rightarrow> exn + 'f pyvalue"
  document_retrieve :: "'f event list \<Rightarrow> string \<Rightarrow> string \<Rightarrow> exn + 'f Product"
  document_delete :: "'f event list \<Rightarrow> string \<Rightarrow> string \<Rightarrow> exn + 'f Product"

text \<open>A computation that may raise, in a world of events.\<close>

type_synonym ('f, 'a) io = "'f event list \<Rightarrow> (exn + 'a) \<times> 'f event list"

fun failure :: "exn + 'a \<Rightarrow> exn option" where
  "failure (Inl e) = Some e"
| "failure (Inr r) = None"

definition perform :: "'f call \<Rightarrow> ('f event list \<Rightarrow> exn + 'a) \<Rightarrow> ('f, 'a) io" where
  "perform c answer tr = (answer tr, tr @ [Call c (failure (answer tr))])"

definition io_return :: "'a \<Rightarrow> ('f, 'a) io" where
  "io_return x tr = (Inr x, tr)"

definition io_lift :: "exn + 'a \<Rightarrow> ('f, 'a) io" where
  "io_lift r tr = (r, tr)"

definition io_bind :: "('f, 'a) io \<Rightarrow> ('a \<Rightarrow> ('f, 'b) io) \<Rightarrow> ('f, 'b) io" where
  "io_bind m k tr = (case m tr of (Inl e, tr') \<Rightarrow> (Inl e, tr') | (Inr x, tr') \<Rightarrow> k x tr')"

text \<open>\<^verbatim>\<open>try: m  except Exception as e: raise HTTPException(status_code=s, detail=f"{prefix}{e}")\<close>\<close>

definition except_raise_http ::
  "nat \<Rightarrow> string \<Rightarrow> ('f, 'a) io \<Rightarrow> 'f event list \<Rightarrow> (http_exception + 'a) \<times> 'f event list" where
  "except_raise_http s prefix m tr =
     (case m tr of
        (Inl e, tr') \<Rightarrow> (Inl (HTTPException s (prefix @ str_exn e)), tr')
      | (Inr x, tr') \<Rightarrow> (Inr x, tr'))"

text \<open>The client calls, each leaving its event.\<close>

definition client_collections_retrieve :: "'f engine \<Rightarrow> ('f, collection list) io" where
  "client_collections_retrieve eng = perform CollectionsRetrieve (collections_retrieve eng)"

definition client_collections_create :: "'f engine \<Rightarrow> collection \<Rightarrow> ('f, collection) io" where
  "client_collections_create eng schema =
     perform (CollectionsCreate schema) (\<lambda>tr. collections_create eng tr schema)"

definition client_collection_retrieve :: "'f engine \<Rightarrow> string \<Rightarrow> ('f, collection) io" where
  "client_collection_retrieve eng name =
     perform (CollectionRetrieve name) (\<lambda>tr. collection_retrieve eng tr name)"

definition client_collection_delete :: "'f engine \<Rightarrow> string \<Rightarrow> ('f, collection) io" where
  "client_collection_delete eng name =
     perform (CollectionDelete name) (\<lambda>tr. collection_delete eng tr name)"

definition client_documents_search ::
  "'f engine \<Rightarrow> string \<Rightarrow> (string \<times> 'f pyvalue) list \<Rightarrow> ('f, 'f search_result) io" where
  "client_documents_search eng name search_params =
     perform (DocumentsSearch name search_params) (\<lambda>tr. documents_search eng tr name search_params)"

definition client_documents_create :: "'f engine \<Rightarrow> string \<Rightarrow> 'f Product \<Rightarrow> ('f, 'f Product) io" where
  "client_documents_create eng name doc =
     perform (DocumentsCreate name doc) (\<lambda>tr. documents_create eng tr name doc)"

definition client_documents_import ::
  "'f engine \<Rightarrow> string \<Rightarrow> 'f Product list \<Rightarrow> ('f, 'f pyvalue) io" where
  "client_documents_import eng name docs =
     perform (DocumentsImport name docs) (\<lambda>tr. documents_import eng tr name docs)"

definition client_document_retrieve :: "'f engine \<Rightarrow> string \<Rightarrow> string \<Rightarrow> ('f, 'f Product) io" where
  "client_document_retrieve eng name doc_id =
     perform (DocumentRetrieve name doc_id) (\<lambda>tr. document_retrieve eng tr name doc_id)"

definition client_document_delete :: "'f engine \<Rightarrow> string \<Rightarrow> string \<Rightarrow> ('f, 'f Product) io" where
  "client_document_delete eng name doc_id =
     perform (DocumentDelete name doc_id) (\<lambda>tr. document_delete eng tr name doc_id)"

section \<open>Python operations the handlers use\<close>

text \<open>\<^verbatim>\<open>a // b\<close> on integers: floor division, as \<open>div\<close> on \<open>int\<close>, raising on zero.\<close>

definition floordiv :: "int \<Rightarrow> int \<Rightarrow> exn + int" where
  "floordiv a b = (if b = 0 then Inl ZeroDivisionError else Inr (a div b))"

text \<open>\<^verbatim>\<open>d[k]\<close> on a dict.\<close>

definition getitem :: "(string \<times> 'v) list \<Rightarrow> string \<Rightarrow> exn + 'v" where
  "getitem d k = (case map_of d k of None \<Rightarrow> Inl (KeyError k) | Some v \<Rightarrow> Inr v)"

text \<open>\<^verbatim>\<open>sep.join(xs)\<close>\<close>

fun join :: "string \<Rightarrow> string list \<Rightarrow> string" where
  "join sep [] = []"
| "join sep [x] = x"
| "join sep (x # y # ys) = x @ sep @ join sep (y # ys)"

section \<open>Constants\<close>

definition COLLECTION_NAME :: string where
  "COLLECTION_NAME = ''products''"

definition COLLECTION_SCHEMA :: collection where
  "COLLECTION_SCHEMA =
     \<lparr>c_name = COLLECTION_NAME,
      c_fields = Some
        [\<lparr>f_name = ''id'', f_type = ''string'', f_facet = None\<rparr>,
         \<lparr>f_name = ''name'', f_type = ''string'', f_facet = None\<rparr>,
         \<lparr>f_name = ''description'', f_type = ''string'', f_facet = None\<rparr>,
         \<lparr>f_name = ''category'', f_type = ''string'', f_facet = Some True\<rparr>,
         \<lparr>f_name = ''price'', f_type = ''float'', f_facet = Some True\<rparr>,
         \<lparr>f_name = ''rating'', f_type = ''float'', f_facet = Some True\<rparr>,
         \<lparr>f_name = ''tags'', f_type = ''string[]'', f_facet = Some True\<rparr>],
      c_default_sorting_field = Some ''rating''\<rparr>"

text \<open>The sample records. \<open>flt\<close> reads a decimal literal of the source as a float.\<close>

definition sample_products :: "(rat \<Rightarrow> 'f) \<Rightarrow> 'f Product list" where
  "sample_products flt =
     [\<lparr>p_id = ''1'', p_name = ''iPhone 15 Pro'',
       p_description = ''Latest Apple smartphone with advanced camera system'',
       p_category = ''Electronics'', p_price = flt (99999 / 100), p_rating = flt (47 / 10),
       p_tags = [''smartphone'', ''apple'', ''premium'', ''camera'']\<rparr>,
      \<lparr>p_id = ''2'', p_name = ''Samsung Galaxy S24'',
       p_description = ''Flagship Android phone with AI features'',
       p_category = ''Electronics'', p_price = flt (89999 / 100), p_rating = flt (45 / 10),
       p_tags = [''smartphone'', ''samsung'', ''android'', ''AI'']\<rparr>,
      \<lparr>p_id = ''3'', p_name = ''MacBook Pro M3'',
       p_description = ''Professional laptop with M3 chip'',
       p_category = ''Computers'', p_price = flt (199999 / 100), p_rating = flt (48 / 10),
       p_tags = [''laptop'', ''apple'', ''professional'', ''M3'']\<rparr>,
      \<lparr>p_id = ''4'', p_name = ''Dell XPS 13'',
       p_description = ''Ultrabook with premium design'',
       p_category = ''Computers'', p_price = flt (129999 / 100), p_rating = flt (44 / 10),
       p_tags = [''laptop'', ''dell'', ''ultrabook'', ''portable'']\<rparr>,
      \<lparr>p_id = ''5'', p_name = ''Sony WH-1000XM5'',
       p_description = ''Noise-canceling wireless headphones'',
       p_category = ''Audio'', p_price = flt (39999 / 100), p_rating = flt (46 / 10),
       p_tags = [''headphones'', ''sony'', ''wireless'', ''noise-canceling'']\<rparr>]"

section \<open>The bootstrap: \<^verbatim>\<open>setup_typesense\<close>\<close>

definition max_retries :: nat where
  "max_retries = 10"

text \<open>How the \<^verbatim>\<open>for attempt in range(max_retries)\<close> loop is left: by \<^verbatim>\<open>break\<close>, by
  \<^verbatim>\<open>return\<close>, or by the end of the range.\<close>

datatype loop_exit = Break | Return | Exhausted

text \<open>
  The loop, over the attempts that remain, with the current \<^verbatim>\<open>retry_delay\<close>.
  \<^verbatim>\<open>retry_delay *= 1.5\<close> is a multiplication by \<open>3 / 2\<close>.
\<close>

fun connect_loop ::
  "'f engine \<Rightarrow> nat list \<Rightarrow> rat \<Rightarrow> 'f event list \<Rightarrow> loop_exit \<times> 'f event list" where
  "connect_loop eng [] retry_delay tr = (Exhausted, tr)"
| "connect_loop eng (attempt # rest) retry_delay tr =
     (case client_collections_retrieve eng tr of
        (Inr cs, tr') \<Rightarrow> (Break, tr' @ [Print (Connected (attempt + 1))])
      | (Inl e, tr') \<Rightarrow>
          if attempt < max_retries - 1
          then connect_loop eng rest (retry_delay * (3 / 2))
                 (tr' @ [Print (AttemptFailed (attempt + 1) (str_exn e) retry_delay),
                         Sleep retry_delay])
          else (Return, tr' @ [Print (ConnectFailed max_retries (str_exn e))]))"

text \<open>\<^verbatim>\<open>try: m  except: pass\<close>\<close>

definition except_pass :: "('f, 'a) io \<Rightarrow> ('f, unit) io" where
  "except_pass m tr = (case m tr of (r, tr') \<Rightarrow> (Inr (), tr'))"

definition io_print :: "log_line \<Rightarrow> ('f, unit) io" where
  "io_print l tr = (Inr (), tr @ [Print l])"

text \<open>The body of the outer \<^verbatim>\<open>try\<close> of the create-and-populate phase.\<close>

definition populate :: "'f engine \<Rightarrow> (rat \<Rightarrow> 'f) \<Rightarrow> ('f, unit) io" where
  "populate eng flt =
     io_bind (except_pass (client_collection_delete eng COLLECTION_NAME)) (\<lambda>u.
     io_bind (client_collections_create eng COLLECTION_SCHEMA) (\<lambda>created.
     io_bind (client_documents_import eng COLLECTION_NAME (sample_products flt)) (\<lambda>imported.
     io_print SetupCompleted)))"

text \<open>The result is \<open>Inl e\<close> if an exception leaves the function.\<close>

definition setup_typesense :: "'f engine \<Rightarrow> (rat \<Rightarrow> 'f) \<Rightarrow> ('f, unit) io" where
  "setup_typesense eng flt tr =
     (case connect_loop eng [0..<max_retries] 2 tr of
        (Return, tr1) \<Rightarrow> (Inr (), tr1)
      | (ex, tr1) \<Rightarrow>
          (case populate eng flt tr1 of
             (Inl e, tr2) \<Rightarrow> (Inr (), tr2 @ [Print (SetupError (str_exn e))])
           | (Inr u, tr2) \<Rightarrow> (Inr (), tr2)))"

section \<open>The request handlers\<close>

definition root :: "'f event list \<Rightarrow> (http_exception + 'f pyvalue) \<times> 'f event list" where
  "root tr = (Inr (VDict [(''message'', VStr ''Welcome to Typesense Demo API'')]), tr)"

definition health_check ::
  "'f engine \<Rightarrow> 'f event list \<Rightarrow> (http_exception + 'f pyvalue) \<times> 'f event list" where
  "health_check eng tr =
     (case client_collections_retrieve eng tr of
        (Inr collections, tr') \<Rightarrow>
          (Inr (VDict [(''status'', VStr ''healthy''), (''typesense'', VBool True),
                       (''collections'', VInt (int (length collections)))]), tr')
      | (Inl e, tr') \<Rightarrow>
          (Inr (VDict [(''status'', VStr ''degraded''), (''typesense'', VBool False),
                       (''error'', VStr (str_exn e))]), tr'))"

definition get_all_products_try :: "'f engine \<Rightarrow> int \<Rightarrow> int \<Rightarrow> ('f, 'f pyvalue) io" where
  "get_all_products_try eng limit offset =
     io_bind (io_lift (floordiv offset limit)) (\<lambda>d.
       let search_params =
             [(''q'', VStr ''*''), (''per_page'', VInt limit), (''page'', VInt (d + 1))]
       in
     io_bind (client_documents_search eng COLLECTION_NAME search_params) (\<lambda>results.
     io_bind (io_lift (getitem search_params ''page'')) (\<lambda>page.
     io_return
       (VDict [(''total'', VInt (found results)),
               (''page'', page),
               (''per_page'', VInt limit),
               (''products'', VList (map (\<lambda>hit. VDocument (document hit)) (hits results)))]))))"

definition get_all_products ::
  "'f engine \<Rightarrow> int \<Rightarrow> int \<Rightarrow> 'f event list \<Rightarrow> (http_exception + 'f pyvalue) \<times> 'f event list" where
  "get_all_products eng limit offset =
     except_raise_http 400 ''Failed to get products: '' (get_all_products_try eng limit offset)"

definition add_product ::
  "'f engine \<Rightarrow> 'f Product \<Rightarrow> 'f event list \<Rightarrow> (http_exception + 'f pyvalue) \<times> 'f event list" where
  "add_product eng product =
     except_raise_http 400 ''Failed to add product: ''
       (io_bind (client_documents_create eng COLLECTION_NAME product) (\<lambda>result.
        io_return (VDict [(''message'', VStr ''Product added successfully''),
                          (''product'', VDocument result)])))"

definition get_product ::
  "'f engine \<Rightarrow> string \<Rightarrow> 'f event list \<Rightarrow> (http_exception + 'f pyvalue) \<times> 'f event list" where
  "get_product eng product_id =
     except_raise_http 404 ''Product not found: ''
       (io_bind (client_document_retrieve eng COLLECTION_NAME product_id) (\<lambda>product.
        io_return (VDocument product)))"

definition delete_product ::
  "'f engine \<Rightarrow> string \<Rightarrow> 'f event list \<Rightarrow> (http_exception + 'f pyvalue) \<times> 'f event list" where
  "delete_product eng product_id =
     except_raise_http 404 ''Failed to delete product: ''
       (io_bind (client_document_delete eng COLLECTION_NAME product_id) (\<lambda>deleted.
        io_return (VDict [(''message'', VStr (''Product '' @ product_id @ '' deleted successfully''))])))"

text \<open>
  The list \<^verbatim>\<open>filters\<close> of \<^verbatim>\<open>search_products\<close>, after the three \<^verbatim>\<open>if\<close>s. \<open>fmt\<close> is
  the text that an f-string gives a float. \<^verbatim>\<open>if search_query.category:\<close> tests the
  truth value of an optional string: \<^verbatim>\<open>None\<close> and the empty string are false. The two
  prices are tested with \<^verbatim>\<open>is not None\<close>.
\<close>

definition search_filters :: "('f \<Rightarrow> string) \<Rightarrow> 'f SearchQuery \<Rightarrow> string list" where
  "search_filters fmt search_query =
     (let filters = [];
          filters = (case category search_query of
                       Some c \<Rightarrow> if c \<noteq> [] then filters @ [''category:='' @ c] else filters
                     | None \<Rightarrow> filters);
          filters = (case min_price search_query of
                       Some p \<Rightarrow> filters @ [''price:>='' @ fmt p]
                     | None \<Rightarrow> filters);
          filters = (case max_price search_query of
                       Some p \<Rightarrow> filters @ [''price:<='' @ fmt p]
                     | None \<Rightarrow> filters)
      in filters)"

text \<open>The dict \<^verbatim>\<open>search_params\<close> of \<^verbatim>\<open>search_products\<close>, as it is sent.\<close>

definition search_products_params ::
  "('f \<Rightarrow> string) \<Rightarrow> 'f SearchQuery \<Rightarrow> (string \<times> 'f pyvalue) list" where
  "search_products_params fmt search_query =
     (let search_params =
            [(''q'', VStr (query search_query)),
             (''query_by'', VStr ''name,description,tags''),
             (''sort_by'', VStr ''rating:desc,price:asc'')];
          filters = search_filters fmt search_query
      in if filters \<noteq> []
         then AList.update ''filter_by'' (VStr (join '' && '' filters)) search_params
         else search_params)"

definition search_products ::
  "'f engine \<Rightarrow> ('f \<Rightarrow> string) \<Rightarrow> 'f SearchQuery \<Rightarrow> 'f event list \<Rightarrow>
     (http_exception + 'f pyvalue) \<times> 'f event list" where
  "search_products eng fmt search_query =
     except_raise_http 400 ''Search failed: ''
       (io_bind (client_documents_search eng COLLECTION_NAME
                   (search_products_params fmt search_query)) (\<lambda>results.
        io_return (VDict [(''query'', VStr (query search_query)),
                          (''found'', VInt (found results)),
                          (''results'', VList (map VHit (hits results)))])))"

definition get_all_collections ::
  "'f engine \<Rightarrow> 'f event list \<Rightarrow> (http_exception + 'f pyvalue) \<times> 'f event list" where
  "get_all_collections eng =
     except_raise_http 400 ''Failed to get collections: ''
       (io_bind (client_collections_retrieve eng) (\<lambda>collections.
        io_return (VDict [(''collections'', VList (map VCollection collections))])))"

definition get_collection_info ::
  "'f engine \<Rightarrow> string \<Rightarrow> 'f event list \<Rightarrow> (http_exception + 'f pyvalue) \<times> 'f event list" where
  "get_collection_info eng collection_name =
     except_raise_http 404 ''Collection not found: ''
       (io_bind (client_collection_retrieve eng collection_name) (\<lambda>collection.
        io_return (VCollection collection)))"

definition get_collection_stats ::
  "'f engine \<Rightarrow> string \<Rightarrow> 'f event list \<Rightarrow> (http_exception + 'f pyvalue) \<times> 'f event list" where
  "get_collection_stats eng collection_name =
     except_raise_http 400 ''Failed to get collection stats: ''
       (io_bind (client_collection_retrieve eng collection_name) (\<lambda>collection_info.
        io_bind (client_documents_search eng collection_name
                   [(''q'', VStr ''*''), (''per_page'', VInt 0)]) (\<lambda>search_result.
        io_return
          (VDict [(''collection_name'', VStr collection_name),
                  (''schema'', VCollection collection_info),
                  (''document_count'', VInt (found search_result)),
                  (''search_time_ms'',
                     VInt (case search_time_ms search_result of Some t \<Rightarrow> t | None \<Rightarrow> 0))]))))"

text \<open>\<^verbatim>\<open>len(collection.get('fields', []))\<close>\<close>

definition fields_len :: "collection \<Rightarrow> int" where
  "fields_len collection = int (length (case c_fields collection of Some fs \<Rightarrow> fs | None \<Rightarrow> []))"

text \<open>
  The \<^verbatim>\<open>for collection in collections\<close> loop of \<^verbatim>\<open>get_typesense_stats\<close>, on the
  collections that remain, with \<^verbatim>\<open>total_docs\<close> and \<^verbatim>\<open>collection_stats\<close>. The inner
  \<^verbatim>\<open>try\<close> catches whatever the search raises.
\<close>

fun stats_loop ::
  "'f engine \<Rightarrow> collection list \<Rightarrow> int \<Rightarrow> 'f pyvalue list \<Rightarrow> 'f event list \<Rightarrow>
     (int \<times> 'f pyvalue list) \<times> 'f event list" where
  "stats_loop eng [] total_docs collection_stats tr = ((total_docs, collection_stats), tr)"
| "stats_loop eng (collection # rest) total_docs collection_stats tr =
     (case client_documents_search eng (c_name collection)
             [(''q'', VStr ''*''), (''per_page'', VInt 0)] tr of
        (Inr search_result, tr') \<Rightarrow>
          (let doc_count = found search_result;
               total_docs = total_docs + doc_count
           in stats_loop eng rest total_docs
                (collection_stats @
                   [VDict [(''name'', VStr (c_name collection)),
                           (''document_count'', VInt doc_count),
                           (''fields'', VInt (fields_len collection))]]) tr')
      | (Inl e, tr') \<Rightarrow>
          stats_loop eng rest total_docs
            (collection_stats @
               [VDict [(''name'', VStr (c_name collection)),
                       (''document_count'', VStr ''unknown''),
                       (''fields'', VInt (fields_len collection))]]) tr')"

definition get_typesense_stats ::
  "'f engine \<Rightarrow> 'f event list \<Rightarrow> (http_exception + 'f pyvalue) \<times> 'f event list" where
  "get_typesense_stats eng =
     except_raise_http 400 ''Failed to get Typesense stats: ''
       (io_bind (client_collections_retrieve eng) (\<lambda>collections tr.
          case stats_loop eng collections 0 [] tr of
            ((total_docs, collection_stats), tr') \<Rightarrow>
              (Inr (VDict [(''total_collections'', VInt (int (length collections))),
                           (''total_documents'', VInt total_docs),
                           (''collections'', VList collection_stats)]), tr')))"

text \<open>The \<^verbatim>\<open>for facet in results['facet_counts']\<close> loop of \<^verbatim>\<open>get_categories\<close>, with
  the current value of \<^verbatim>\<open>categories\<close>.\<close>

fun categories_loop :: "facet list \<Rightarrow> string list \<Rightarrow> string list" where
  "categories_loop [] categories = categories"
| "categories_loop (facet # rest) categories =
     (if field_name facet = ''category''
      then categories_loop rest (map fc_value (counts facet))
      else categories_loop rest categories)"

definition get_categories ::
  "'f engine \<Rightarrow> 'f event list \<Rightarrow> (http_exception + 'f pyvalue) \<times> 'f event list" where
  "get_categories eng =
     except_raise_http 400 ''Failed to get categories: ''
       (io_bind (client_documents_search eng COLLECTION_NAME
                   [(''q'', VStr ''*''), (''facet_by'', VStr ''category'')]) (\<lambda>results.
          let categories = [];
              categories = (case facet_counts results of
                              Some fs \<Rightarrow> categories_loop fs categories
                            | None \<Rightarrow> categories)
          in io_return (VDict [(''categories'', VList (map VStr categories))])))"

definition get_recommendations ::
  "'f engine \<Rightarrow> string \<Rightarrow> int \<Rightarrow> 'f event list \<Rightarrow> (http_exception + 'f pyvalue) \<times> 'f event list" where
  "get_recommendations eng product_id limit =
     except_raise_http 400 ''Failed to get recommendations: ''
       (io_bind (client_document_retrieve eng COLLECTION_NAME product_id) (\<lambda>source_product.
          let search_params =
                [(''q'', VStr (join '' '' (p_tags source_product))),
                 (''query_by'', VStr ''tags,category,name''),
                 (''filter_by'', VStr (''id:!='' @ product_id)),
                 (''per_page'', VInt limit),
                 (''sort_by'', VStr ''rating:desc'')]
          in
        io_bind (client_documents_search eng COLLECTION_NAME search_params) (\<lambda>results.
        io_return (VDict [(''source_product'', VDocument source_product),
                          (''recommendations'', VList (map VHit (hits results)))]))))"

section \<open>The routes\<close>

text \<open>A request, after the framework has matched the route and validated the parameters.\<close>

datatype 'f request =
    GetRoot
  | GetHealth
  | GetProducts int int
  | PostProducts "'f Product"
  | GetProduct string
  | DeleteProduct string
  | PostSearch "'f SearchQuery"
  | GetAdminCollections
  | GetAdminCollection string
  | GetAdminCollectionStats string
  | GetAdminTypesenseStats
  | GetCategories
  | GetRecommendations string int

fun handle ::
  "'f engine \<Rightarrow> ('f \<Rightarrow> string) \<Rightarrow> 'f request \<Rightarrow> 'f event list \<Rightarrow>
     (http_exception + 'f pyvalue) \<times> 'f event list" where
  "handle eng fmt GetRoot = root"
| "handle eng fmt GetHealth = health_check eng"
| "handle eng fmt (GetProducts limit offset) = get_all_products eng limit offset"
| "handle eng fmt (PostProducts product) = add_product eng product"
| "handle eng fmt (GetProduct product_id) = get_product eng product_id"
| "handle eng fmt (DeleteProduct product_id) = delete_product eng product_id"
| "handle eng fmt (PostSearch search_query) = search_products eng fmt search_query"
| "handle eng fmt GetAdminCollections = get_all_collections eng"
| "handle eng fmt (GetAdminCollection collection_name) = get_collection_info eng collection_name"
| "handle eng fmt (GetAdminCollectionStats collection_name) =
     get_collection_stats eng collection_name"
| "handle eng fmt GetAdminTypesenseStats = get_typesense_stats eng"
| "handle eng fmt GetCategories = get_categories eng"
| "handle eng fmt (GetRecommendations product_id limit) = get_recommendations eng product_id limit"

section \<open>Notions used to state the properties\<close>

text \<open>
  The filter clauses as the specification words them: one clause for each optional
  filter that the query supplies (that is not \<^verbatim>\<open>None\<close>), in the order category,
  minimum price, maximum price.
\<close>

definition supplied_clauses :: "('f \<Rightarrow> string) \<Rightarrow> 'f SearchQuery \<Rightarrow> string list" where
  "supplied_clauses fmt search_query =
     (case category search_query of Some c \<Rightarrow> [''category:='' @ c] | None \<Rightarrow> []) @
     (case min_price search_query of Some p \<Rightarrow> [''price:>='' @ fmt p] | None \<Rightarrow> []) @
     (case max_price search_query of Some p \<Rightarrow> [''price:<='' @ fmt p] | None \<Rightarrow> [])"

text \<open>The status and the prefix of the detail with which each route reports a failure.\<close>

fun error_status :: "'f request \<Rightarrow> nat" where
  "error_status (GetProduct product_id) = 404"
| "error_status (DeleteProduct product_id) = 404"
| "error_status (GetAdminCollection collection_name) = 404"
| "error_status req = 400"

fun error_prefix :: "'f request \<Rightarrow> string" where
  "error_prefix GetRoot = []"
| "error_prefix GetHealth = []"
| "error_prefix (GetProducts limit offset) = ''Failed to get products: ''"
| "error_prefix (PostProducts product) = ''Failed to add product: ''"
| "error_prefix (GetProduct product_id) = ''Product not found: ''"
| "error_prefix (DeleteProduct product_id) = ''Failed to delete product: ''"
| "error_prefix (PostSearch search_query) = ''Search failed: ''"
| "error_prefix GetAdminCollections = ''Failed to get collections: ''"
| "error_prefix (GetAdminCollection collection_name) = ''Collection not found: ''"
| "error_prefix (GetAdminCollectionStats collection_name) = ''Failed to get collection stats: ''"
| "error_prefix GetAdminTypesenseStats = ''Failed to get Typesense stats: ''"
| "error_prefix GetCategories = ''Failed to get categories: ''"
| "error_prefix (GetRecommendations product_id limit) = ''Failed to get recommendations: ''"

text \<open>
  The connection attempts and the sleeps of a run, in order: an attempt is a call of
  \<^verbatim>\<open>client.collections.retrieve()\<close>, and it succeeded if it raised nothing.
\<close>

datatype step = Attempt bool | Wait rat

fun schedule :: "'f event list \<Rightarrow> step list" where
  "schedule [] = []"
| "schedule (Call CollectionsRetrieve r # tr) = Attempt (r = None) # schedule tr"
| "schedule (Sleep d # tr) = Wait d # schedule tr"
| "schedule (ev # tr) = schedule tr"

text \<open>The calls of a run, in order.\<close>

fun calls_of :: "'f event list \<Rightarrow> 'f call list" where
  "calls_of [] = []"
| "calls_of (Call c r # tr) = c # calls_of tr"
| "calls_of (ev # tr) = calls_of tr"

text \<open>\<open>n\<close> failed attempts, each followed by its sleep: the \<open>k\<close>-th sleep lasts
  \<open>d * (3/2) ^ k\<close>.\<close>

definition failed_rounds :: "rat \<Rightarrow> nat \<Rightarrow> step list" where
  "failed_rounds d n = concat (map (\<lambda>k. [Attempt False, Wait (d * (3 / 2) ^ k)]) [0..<n])"

text \<open>
  The answers of the engine to the document-count searches of
  \<^verbatim>\<open>get_typesense_stats\<close>, one for each collection, when the loop starts after the
  events \<open>tr\<close>.
\<close>

definition count_params :: "(string \<times> 'f pyvalue) list" where
  "count_params = [(''q'', VStr ''*''), (''per_page'', VInt 0)]"

fun search_answers ::
  "'f engine \<Rightarrow> collection list \<Rightarrow> 'f event list \<Rightarrow> (exn + 'f search_result) list" where
  "search_answers eng [] tr = []"
| "search_answers eng (c # cs) tr =
     (let answer = documents_search eng tr (c_name c) count_params
      in answer #
         search_answers eng cs
           (tr @ [Call (DocumentsSearch (c_name c) count_params) (failure answer)]))"

text \<open>The entry of a collection in the statistics, and what it adds to the total.\<close>

fun stats_entry :: "collection \<times> (exn + 'f search_result) \<Rightarrow> 'f pyvalue" where
  "stats_entry (c, Inr search_result) =
     VDict [(''name'', VStr (c_name c)), (''document_count'', VInt (found search_result)),
            (''fields'', VInt (fields_len c))]"
| "stats_entry (c, Inl e) =
     VDict [(''name'', VStr (c_name c)), (''document_count'', VStr ''unknown''),
            (''fields'', VInt (fields_len c))]"

fun counted :: "exn + 'f search_result \<Rightarrow> int" where
  "counted (Inr search_result) = found search_result"
| "counted (Inl e) = 0"

text \<open>The facets of the category field in a search result.\<close>

definition category_facets :: "'f search_result \<Rightarrow> facet list" where
  "category_facets results =
     (case facet_counts results of
        Some fs \<Rightarrow> filter (\<lambda>f. field_name f = ''category'') fs
      | None \<Rightarrow> [])"

section \<open>Engines for the examples\<close>

text \<open>An engine that fails every call with \<open>e\<close>.\<close>

definition failing_engine :: "exn \<Rightarrow> 'f engine" where
  "failing_engine e =
     \<lparr>collections_retrieve = (\<lambda>tr. Inl e),
      collections_create = (\<lambda>tr schema. Inl e),
      collection_retrieve = (\<lambda>tr name. Inl e),
      collection_delete = (\<lambda>tr name. Inl e),
      documents_search = (\<lambda>tr name search_params. Inl e),
      documents_create = (\<lambda>tr name doc. Inl e),
      documents_import = (\<lambda>tr name docs. Inl e),
      document_retrieve = (\<lambda>tr name doc_id. Inl e),
      document_delete = (\<lambda>tr name doc_id. Inl e)\<rparr>"

text \<open>An engine that answers every call: it lists the collections \<open>cs\<close>, finds
  \<open>results\<close> in every search and holds the document \<open>doc\<close> under every id.\<close>

definition steady_engine ::
  "collection list \<Rightarrow> 'f search_result \<Rightarrow> 'f Product \<Rightarrow> 'f engine" where
  "steady_engine cs results doc =
     \<lparr>collections_retrieve = (\<lambda>tr. Inr cs),
      collections_create = (\<lambda>tr schema. Inr schema),
      collection_retrieve = (\<lambda>tr name. Inr COLLECTION_SCHEMA),
      collection_delete = (\<lambda>tr name. Inr COLLECTION_SCHEMA),
      documents_search = (\<lambda>tr name search_params. Inr results),
      documents_create = (\<lambda>tr name doc'. Inr doc'),
      documents_import = (\<lambda>tr name docs. Inr (VList [])),
      document_retrieve = (\<lambda>tr name doc_id. Inr doc),
      document_delete = (\<lambda>tr name doc_id. Inr doc)\<rparr>"

definition no_results :: "'f search_result" where
  "no_results = \<lparr>found = 0, hits = [], facet_counts = None, search_time_ms = None\<rparr>"

definition some_product :: "string Product" where
  "some_product =
     \<lparr>p_id = ''42'', p_name = ''Kettle'', p_description = ''Electric kettle'',
      p_category = ''Kitchen'', p_price = ''24.5'', p_rating = ''4.0'', p_tags = [''kitchen'']\<rparr>"

text \<open>An engine that refuses the first \<open>k\<close> connection attempts and answers every
  call from then on.\<close>

definition late_engine :: "nat \<Rightarrow> string engine" where
  "late_engine k =
     (steady_engine [] no_results some_product)
       \<lparr>collections_retrieve :=
          (\<lambda>tr. if length (filter (\<lambda>s. s = Attempt False) (schedule tr)) < k
                then Inl (EngineError ''Connection refused'')
                else Inr [])\<rparr>"

text \<open>The same engine, except that the demo collection does not exist yet.\<close>

definition fresh_engine :: "string engine" where
  "fresh_engine =
     (steady_engine [] no_results some_product)
       \<lparr>collection_delete := (\<lambda>tr name. Inl (ObjectNotFound ''No collection with name products found''))\<rparr>"

text \<open>An engine with three collections, whose searches of one of them time out.\<close>

definition flaky_engine :: "string engine" where
  "flaky_engine =
     (steady_engine
        [\<lparr>c_name = ''products'', c_fields = None, c_default_sorting_field = None\<rparr>,
         \<lparr>c_name = ''orders'', c_fields = Some [], c_default_sorting_field = None\<rparr>,
         \<lparr>c_name = ''users'', c_fields = None, c_default_sorting_field = None\<rparr>]
        no_results some_product)
       \<lparr>documents_search :=
          (\<lambda>tr name search_params.
             if name = ''orders'' then Inl (EngineError ''Request timed out'')
             else Inr (no_results\<lparr>found := 5\<rparr>))\<rparr>"

text \<open>A search result with the facets of two fields.\<close>

definition faceted_results :: "string search_result" where
  "faceted_results =
     \<lparr>found = 5, hits = [],
      facet_counts = Some
        [\<lparr>field_name = ''tags'', counts = [\<lparr>fc_value = ''apple'', fc_count = 2\<rparr>]\<rparr>,
         \<lparr>field_name = ''category'',
          counts = [\<lparr>fc_value = ''Electronics'', fc_count = 2\<rparr>,
                    \<lparr>fc_value = ''Computers'', fc_count = 2\<rparr>,
                    \<lparr>fc_value = ''Audio'', fc_count = 1\<rparr>]\<rparr>],
      search_time_ms = Some 1\<rparr>"

text \<open>Two queries; a float is written as the text that \<open>fmt\<close> gives it.\<close>

definition full_query :: "string SearchQuery" where
  "full_query =
     \<lparr>query = ''phone'', category = Some ''Electronics'',
      min_price = Some ''100.0'', max_price = Some ''999.99''\<rparr>"

definition empty_category_query :: "string SearchQuery" where
  "empty_category_query =
     \<lparr>query = ''phone'', category = Some [], min_price = None, max_price = None\<rparr>"

section \<open>Properties\<close>

lemmas io_defs = io_bind_def io_return_def io_lift_def perform_def except_raise_http_def

text \<open>
  Claim C4. In \<^verbatim>\<open>GET /products/\<close>, for every \<open>limit > 0\<close> and \<open>offset \<ge> 0\<close>, the
  one call made is a search of the products collection with \<open>per_page = limit\<close> and
  \<open>page = offset div limit + 1\<close>, and the response reports the same page; the witness
  is the case \<open>limit = 10\<close>, \<open>offset = 25\<close>, where the page is 3.
\<close>

theorem get_all_products_page:
  assumes "0 < limit" and "0 \<le> offset"
  shows "get_all_products eng limit offset tr =
    (let search_params =
           [(''q'', VStr ''*''), (''per_page'', VInt limit), (''page'', VInt (offset div limit + 1))];
         answer = documents_search eng tr COLLECTION_NAME search_params
     in (case answer of
           Inl e \<Rightarrow> Inl (HTTPException 400 (''Failed to get products: '' @ str_exn e))
         | Inr results \<Rightarrow>
             Inr (VDict [(''total'', VInt (found results)),
                         (''page'', VInt (offset div limit + 1)),
                         (''per_page'', VInt limit),
                         (''products'', VList (map (\<lambda>hit. VDocument (document hit)) (hits results)))]),
         tr @ [Call (DocumentsSearch COLLECTION_NAME search_params) (failure answer)]))"
  using assms
  by (simp add: get_all_products_def get_all_products_try_def io_defs client_documents_search_def
      floordiv_def getitem_def Let_def split: sum.splits)

theorem get_all_products_page_witness:
  "get_all_products (steady_engine [] no_results some_product) 10 25 [] =
     (Inr (VDict [(''total'', VInt 0), (''page'', VInt 3), (''per_page'', VInt 10),
                  (''products'', VList [])]),
      [Call (DocumentsSearch ''products''
               [(''q'', VStr ''*''), (''per_page'', VInt 10), (''page'', VInt 3)]) None])"
  using get_all_products_page [of 10 25 "steady_engine [] no_results some_product" "[]"]
  by (simp add: steady_engine_def no_results_def COLLECTION_NAME_def)

text \<open>
  Claim C10. With \<open>limit = 0\<close> the division raises inside the \<^verbatim>\<open>try\<close> before any
  call to the engine: the handler raises the HTTP error 400 and the events are unchanged.
\<close>

theorem get_all_products_limit_zero:
  "get_all_products eng 0 offset tr =
     (Inl (HTTPException 400 (''Failed to get products: '' @ str_exn ZeroDivisionError)), tr)
   \<and> response_status (fst (get_all_products eng 0 offset tr)) = 400
   \<and> calls_of (snd (get_all_products eng 0 offset tr)) = calls_of tr"
  by (simp add: get_all_products_def get_all_products_try_def io_defs floordiv_def)

theorem get_all_products_limit_zero_witness:
  "get_all_products (steady_engine [] no_results some_product) 0 25 [] =
     (Inl (HTTPException 400 (''Failed to get products: '' @ str_exn ZeroDivisionError)), [])
   \<and> response_status (fst (get_all_products (steady_engine [] no_results some_product) 0 25 [])) = 400"
  using get_all_products_limit_zero [of "steady_engine [] no_results some_product" 25 "[]"]
  by simp

text \<open>
  Claim C5. When the engine's delete call raises (its not-found error, or any other),
  \<^verbatim>\<open>DELETE /products/{id}\<close> responds with status 404.
\<close>

theorem delete_product_not_found:
  assumes "document_delete eng tr COLLECTION_NAME product_id = Inl e"
  shows "fst (delete_product eng product_id tr) =
           Inl (HTTPException 404 (''Failed to delete product: '' @ str_exn e))
         \<and> response_status (fst (delete_product eng product_id tr)) = 404"
  using assms
  by (simp add: delete_product_def io_defs client_document_delete_def)

theorem delete_product_not_found_witness:
  "fst (delete_product (failing_engine (ObjectNotFound ''Could not find a document with id: 7''))
          ''7'' ([] :: string event list)) =
     Inl (HTTPException 404 ''Failed to delete product: Could not find a document with id: 7'')
   \<and> response_status
        (fst (delete_product (failing_engine (ObjectNotFound ''Could not find a document with id: 7''))
                ''7'' ([] :: string event list))) = 404"
  using delete_product_not_found
    [of "failing_engine (ObjectNotFound ''Could not find a document with id: 7'')" "[]" "''7''"
        "ObjectNotFound ''Could not find a document with id: 7''"]
  by (simp add: failing_engine_def)

subsection \<open>The filter expression of a search\<close>

lemma search_filters_clauses:
  "search_filters fmt sq =
     (case category sq of Some c \<Rightarrow> if c = [] then [] else [''category:='' @ c] | None \<Rightarrow> []) @
     (case min_price sq of Some p \<Rightarrow> [''price:>='' @ fmt p] | None \<Rightarrow> []) @
     (case max_price sq of Some p \<Rightarrow> [''price:<='' @ fmt p] | None \<Rightarrow> [])"
  by (simp add: search_filters_def Let_def split: option.splits)

text \<open>
  Claim C1, as amended. In \<^verbatim>\<open>POST /search/\<close> the clauses are those of the supplied
  filters, in the order category, minimum price, maximum price, where a category that is
  the empty string counts as not supplied; \<^verbatim>\<open>filter_by\<close> is these clauses joined by
  \<^verbatim>\<open> && \<close>, and is not set when there is no clause; the parameters are sent to the
  engine as they are.
\<close>

theorem search_filter_expression:
  "search_filters fmt sq =
     supplied_clauses fmt (sq\<lparr>category := (if category sq = Some [] then None else category sq)\<rparr>)
   \<and> map_of (search_products_params fmt sq) ''filter_by'' =
       (if search_filters fmt sq = [] then None
        else Some (VStr (join '' && '' (search_filters fmt sq))))
   \<and> snd (search_products eng fmt sq tr) =
       tr @ [Call (DocumentsSearch COLLECTION_NAME (search_products_params fmt sq))
               (failure (documents_search eng tr COLLECTION_NAME (search_products_params fmt sq)))]"
proof (intro conjI)
  show "search_filters fmt sq =
     supplied_clauses fmt (sq\<lparr>category := (if category sq = Some [] then None else category sq)\<rparr>)"
    by (simp add: search_filters_clauses supplied_clauses_def split: option.splits)
  show "map_of (search_products_params fmt sq) ''filter_by'' =
       (if search_filters fmt sq = [] then None
        else Some (VStr (join '' && '' (search_filters fmt sq))))"
    by (simp add: search_products_params_def Let_def)
  show "snd (search_products eng fmt sq tr) =
       tr @ [Call (DocumentsSearch COLLECTION_NAME (search_products_params fmt sq))
               (failure (documents_search eng tr COLLECTION_NAME (search_products_params fmt sq)))]"
    by (simp add: search_products_def io_defs client_documents_search_def split: sum.splits)
qed

theorem search_filter_expression_witness:
  "search_filters (\<lambda>p. p) full_query =
     [''category:=Electronics'', ''price:>=100.0'', ''price:<=999.99'']
   \<and> map_of (search_products_params (\<lambda>p. p) full_query) ''filter_by'' =
       Some (VStr ''category:=Electronics && price:>=100.0 && price:<=999.99'')"
  using search_filter_expression [of "\<lambda>p. p" full_query]
  by (simp add: full_query_def supplied_clauses_def)

text \<open>
  Claim C1 as it is stated fails for a query whose category is the empty string: the
  category is supplied, the specification's clauses hold an equality clause for it, and
  the handler builds no clause and sets no \<^verbatim>\<open>filter_by\<close>.
\<close>

theorem search_filter_empty_category_counterexample:
  "supplied_clauses (\<lambda>p. p) empty_category_query = [''category:='']
   \<and> search_filters (\<lambda>p. p) empty_category_query = []
   \<and> search_filters (\<lambda>p. p) empty_category_query \<noteq> supplied_clauses (\<lambda>p. p) empty_category_query
   \<and> map_of (search_products_params (\<lambda>p. p) empty_category_query) ''filter_by'' = None"
  by (simp add: empty_category_query_def supplied_clauses_def search_filters_def
      search_products_params_def)

subsection \<open>The categories\<close>

lemma categories_loop_filter:
  "categories_loop fs acc =
     (case filter (\<lambda>f. field_name f = ''category'') fs of
        [] \<Rightarrow> acc
      | cf # cfs \<Rightarrow> map fc_value (counts (last (cf # cfs))))"
proof (induction fs arbitrary: acc)
  case Nil
  show ?case by simp
next
  case (Cons f fs)
  show ?case
    by (simp add: Cons.IH split: list.splits)
qed

text \<open>
  Claim C8. When the facet search returns, \<^verbatim>\<open>GET /categories/\<close> responds with the values
  of the counts of the category facet, as they stand in the engine's result (of the last
  such facet, should the engine send several), and with the empty list when the result
  has no \<^verbatim>\<open>facet_counts\<close> or no facet of the category field.
\<close>

theorem get_categories_values:
  assumes "documents_search eng tr COLLECTION_NAME
             [(''q'', VStr ''*''), (''facet_by'', VStr ''category'')] = Inr results"
  shows "fst (get_categories eng tr) =
           Inr (VDict [(''categories'',
                  VList (map VStr
                    (case category_facets results of
                       [] \<Rightarrow> []
                     | cf # cfs \<Rightarrow> map fc_value (counts (last (cf # cfs))))))])"
  using assms
  by (simp add: get_categories_def io_defs client_documents_search_def category_facets_def
      categories_loop_filter Let_def split: option.splits list.splits)

theorem get_categories_values_witness:
  "fst (get_categories (steady_engine [] faceted_results some_product) []) =
     Inr (VDict [(''categories'', VList [VStr ''Electronics'', VStr ''Computers'', VStr ''Audio''])])
   \<and> fst (get_categories (steady_engine [] no_results some_product) []) =
     Inr (VDict [(''categories'', VList [])])"
  using get_categories_values [of "steady_engine [] faceted_results some_product" "[]" faceted_results]
    get_categories_values [of "steady_engine [] no_results some_product" "[]" no_results]
  by (simp add: steady_engine_def faceted_results_def no_results_def category_facets_def)

subsection \<open>The bootstrap\<close>

lemma schedule_append: "schedule (xs @ ys) = schedule xs @ schedule ys"
  by (induction xs rule: schedule.induct) simp_all

lemma calls_of_append: "calls_of (xs @ ys) = calls_of xs @ calls_of ys"
  by (induction xs rule: calls_of.induct) simp_all

lemma failed_rounds_0: "failed_rounds d 0 = []"
  by (simp add: failed_rounds_def)

lemma failed_rounds_Suc:
  "failed_rounds d (Suc n) = [Attempt False, Wait d] @ failed_rounds (d * (3 / 2)) n"
proof -
  have "[0..<Suc n] = 0 # map Suc [0..<n]"
    by (simp add: upt_conv_Cons map_Suc_upt del: upt_Suc)
  then show ?thesis
    by (simp add: failed_rounds_def comp_def mult.assoc del: upt_Suc)
qed

lemma connect_loop_run:
  assumes "a < max_retries"
  shows "\<exists>n ok new.
           a + n < max_retries \<and> (ok \<or> a + n = max_retries - 1)
         \<and> connect_loop eng [a..<max_retries] d tr = (if ok then Break else Return, tr @ new)
         \<and> schedule new = failed_rounds d n @ [Attempt ok]
         \<and> calls_of new = replicate (Suc n) CollectionsRetrieve
         \<and> (ok \<or> (\<exists>e. last new = Print (ConnectFailed max_retries (str_exn e))))"
  using assms
proof (induction "max_retries - a" arbitrary: a d tr)
  case 0
  then show ?case by simp
next
  case (Suc k)
  have upt: "[a..<max_retries] = a # [Suc a..<max_retries]"
    using Suc.prems by (simp add: upt_conv_Cons)
  show ?case
  proof (cases "collections_retrieve eng tr")
    case (Inr cs)
    let ?new = "[Call CollectionsRetrieve None, Print (Connected (a + 1))]"
    have "connect_loop eng [a..<max_retries] d tr = (Break, tr @ ?new)"
      by (simp add: upt client_collections_retrieve_def perform_def Inr)
    then show ?thesis
      using Suc.prems
      by (intro exI[of _ 0] exI[of _ True] exI[of _ ?new]) (simp add: failed_rounds_0)
  next
    case (Inl e)
    show ?thesis
    proof (cases "a < max_retries - 1")
      case False
      let ?new = "[Call CollectionsRetrieve (Some e), Print (ConnectFailed max_retries (str_exn e))]"
      have "connect_loop eng [a..<max_retries] d tr = (Return, tr @ ?new)"
        using False by (simp add: upt client_collections_retrieve_def perform_def Inl)
      moreover have "a = max_retries - 1"
        using False Suc.prems by simp
      ultimately show ?thesis
        using Suc.prems
        by (intro exI[of _ 0] exI[of _ False] exI[of _ ?new]) (auto simp add: failed_rounds_0)
    next
      case True
      let ?pre = "[Call CollectionsRetrieve (Some e),
                   Print (AttemptFailed (a + 1) (str_exn e) d), Sleep d]"
      have step: "connect_loop eng [a..<max_retries] d tr =
                    connect_loop eng [Suc a..<max_retries] (d * (3 / 2)) (tr @ ?pre)"
        using True by (simp add: upt client_collections_retrieve_def perform_def Inl)
      have "k = max_retries - Suc a" and "Suc a < max_retries"
        using Suc.hyps(2) True by simp_all
      from Suc.hyps(1)[OF this, of "d * (3 / 2)" "tr @ ?pre"]
      obtain n ok new where
        n: "Suc a + n < max_retries" "ok \<or> Suc a + n = max_retries - 1"
        and run: "connect_loop eng [Suc a..<max_retries] (d * (3 / 2)) (tr @ ?pre) =
                    (if ok then Break else Return, (tr @ ?pre) @ new)"
        and sch: "schedule new = failed_rounds (d * (3 / 2)) n @ [Attempt ok]"
        and cls: "calls_of new = replicate (Suc n) CollectionsRetrieve"
        and lst: "ok \<or> (\<exists>e. last new = Print (ConnectFailed max_retries (str_exn e)))"
        by blast
      have ne: "new \<noteq> []"
        using cls by auto
      show ?thesis
        using n run sch cls lst ne
        by (intro exI[of _ "Suc n"] exI[of _ ok] exI[of _ "?pre @ new"])
           (simp add: step failed_rounds_Suc)
    qed
  qed
qed

lemma populate_run:
  "populate eng flt tr =
     (let deleted = collection_delete eng tr COLLECTION_NAME;
          tr2 = tr @ [Call (CollectionDelete COLLECTION_NAME) (failure deleted)];
          created = collections_create eng tr2 COLLECTION_SCHEMA;
          tr3 = tr2 @ [Call (CollectionsCreate COLLECTION_SCHEMA) (failure created)]
      in case created of
           Inl e \<Rightarrow> (Inl e, tr3)
         | Inr c \<Rightarrow>
             (let imported = documents_import eng tr3 COLLECTION_NAME (sample_products flt);
                  tr4 = tr3 @ [Call (DocumentsImport COLLECTION_NAME (sample_products flt))
                                 (failure imported)]
              in case imported of
                   Inl e \<Rightarrow> (Inl e, tr4)
                 | Inr r \<Rightarrow> (Inr (), tr4 @ [Print SetupCompleted])))"
  by (simp add: populate_def io_bind_def except_pass_def io_print_def perform_def
      client_collection_delete_def client_collections_create_def client_documents_import_def
      Let_def split: sum.splits)


lemma setup_typesense_run:
  "\<exists>n ok new post.
      n \<le> 9 \<and> (ok \<or> n = 9)
    \<and> setup_typesense eng flt tr = (Inr (), tr @ new @ post)
    \<and> schedule new = failed_rounds 2 n @ [Attempt ok]
    \<and> calls_of new = replicate (Suc n) CollectionsRetrieve
    \<and> schedule post = []
    \<and> (ok \<or> (post = [] \<and> (\<exists>e. last new = Print (ConnectFailed 10 (str_exn e)))))"
proof -
  have "0 < max_retries"
    by (simp add: max_retries_def)
  from connect_loop_run[OF this, of eng 2 tr]
  obtain n ok new where
    n: "n < max_retries" "ok \<or> n = max_retries - 1"
    and run: "connect_loop eng [0..<max_retries] 2 tr = (if ok then Break else Return, tr @ new)"
    and sch: "schedule new = failed_rounds 2 n @ [Attempt ok]"
    and cls: "calls_of new = replicate (Suc n) CollectionsRetrieve"
    and lst: "ok \<or> (\<exists>e. last new = Print (ConnectFailed max_retries (str_exn e)))"
    by auto
  show ?thesis
  proof (cases ok)
    case False
    then have "setup_typesense eng flt tr = (Inr (), tr @ new @ [])"
      by (simp add: setup_typesense_def run)
    then show ?thesis
      using False n sch cls lst
      by (intro exI[of _ n] exI[of _ ok] exI[of _ new] exI[of _ "[]"])
         (simp add: max_retries_def)
  next
    case True
    obtain r tr2 where p: "populate eng flt (tr @ new) = (r, tr2)"
      by (cases "populate eng flt (tr @ new)")
    have "\<exists>post. tr2 = (tr @ new) @ post \<and> schedule post = []
            \<and> schedule (case r of Inl e \<Rightarrow> [Print (SetupError (str_exn e))] | Inr u \<Rightarrow> []) = []"
      using p
      by (auto simp add: populate_run Let_def split: sum.splits)
    then obtain post where post: "tr2 = (tr @ new) @ post" "schedule post = []"
      by blast
    let ?post = "post @ (case r of Inl e \<Rightarrow> [Print (SetupError (str_exn e))] | Inr u \<Rightarrow> [])"
    have "setup_typesense eng flt tr = (Inr (), tr @ new @ ?post)"
      using True by (simp add: setup_typesense_def run p post split: sum.splits)
    moreover have "schedule ?post = []"
      by (simp add: schedule_append post split: sum.splits)
    ultimately show ?thesis
      using True n sch cls
      by (intro exI[of _ n] exI[of _ ok] exI[of _ new] exI[of _ ?post])
         (simp add: max_retries_def)
  qed
qed

lemma upt_10: "[0..<10] = [0, 1, 2, 3, 4, 5, 6, 7, 8, 9]"
  by (simp add: upt_rec)

text \<open>
  Claim C3. Whatever the engine answers, the connection attempts and sleeps of
  \<^verbatim>\<open>setup_typesense\<close> are \<open>n \<le> 9\<close> failed attempts, the \<open>k\<close>-th of them followed by a
  sleep of \<open>2 * (3/2) ^ k\<close> (2, 3, 4.5, ...), and then one last attempt with no sleep
  after it, which succeeds unless it is the tenth: at most ten attempts in all.
\<close>

theorem bootstrap_retry_schedule:
  "\<exists>n ok. n \<le> 9 \<and> (ok \<or> n = 9)
     \<and> schedule (snd (setup_typesense eng flt tr)) =
         schedule tr @ failed_rounds 2 n @ [Attempt ok]"
proof -
  from setup_typesense_run[of eng flt tr]
  obtain n ok new post where
    "n \<le> 9" "ok \<or> n = 9"
    "setup_typesense eng flt tr = (Inr (), tr @ new @ post)"
    "schedule new = failed_rounds 2 n @ [Attempt ok]"
    "schedule post = []"
    by blast
  then show ?thesis
    by (intro exI[of _ n] exI[of _ ok]) (simp add: schedule_append)
qed

theorem bootstrap_retry_schedule_witness:
  "schedule (snd (setup_typesense (late_engine 3) (\<lambda>r. ''0'') [])) =
     [Attempt False, Wait 2, Attempt False, Wait 3, Attempt False, Wait (9 / 2), Attempt True]"
  using bootstrap_retry_schedule [of "late_engine 3" "\<lambda>r. ''0''" "[]"]
  by (simp add: setup_typesense_def max_retries_def upt_10 late_engine_def steady_engine_def
      client_collections_retrieve_def perform_def populate_run Let_def)

text \<open>
  Claim C7. If no connection attempt of the run succeeds, \<^verbatim>\<open>setup_typesense\<close> returns
  without raising, its calls are the ten attempts and nothing else (no delete, create
  or import), and the last thing it does is to print the failure.
\<close>

theorem bootstrap_all_attempts_fail:
  assumes "Attempt True \<notin> set (schedule (drop (length tr) (snd (setup_typesense eng flt tr))))"
  shows "fst (setup_typesense eng flt tr) = Inr ()
       \<and> calls_of (snd (setup_typesense eng flt tr)) = calls_of tr @ replicate 10 CollectionsRetrieve
       \<and> (\<exists>e. last (snd (setup_typesense eng flt tr)) = Print (ConnectFailed 10 (str_exn e)))"
proof -
  from setup_typesense_run[of eng flt tr]
  obtain n ok new post where
    n: "n \<le> 9" "ok \<or> n = 9"
    and run: "setup_typesense eng flt tr = (Inr (), tr @ new @ post)"
    and sch: "schedule new = failed_rounds 2 n @ [Attempt ok]"
    and cls: "calls_of new = replicate (Suc n) CollectionsRetrieve"
    and post: "ok \<or> (post = [] \<and> (\<exists>e. last new = Print (ConnectFailed 10 (str_exn e))))"
    by blast
  have "Attempt ok \<in> set (schedule (drop (length tr) (snd (setup_typesense eng flt tr))))"
    by (simp add: run schedule_append sch)
  with assms have "\<not> ok"
    by auto
  with n post have n9: "n = 9" and p: "post = []"
    and l: "\<exists>e. last new = Print (ConnectFailed 10 (str_exn e))"
    by auto
  have "new \<noteq> []"
    using cls by auto
  then show ?thesis
    using l by (simp add: run p calls_of_append cls n9)
qed

theorem bootstrap_all_attempts_fail_witness:
  "fst (setup_typesense (failing_engine (EngineError ''Connection refused'')) (\<lambda>r. ''0'') []) = Inr ()
   \<and> calls_of (snd (setup_typesense (failing_engine (EngineError ''Connection refused''))
                      (\<lambda>r. ''0'') [])) = replicate 10 CollectionsRetrieve
   \<and> last (snd (setup_typesense (failing_engine (EngineError ''Connection refused''))
                  (\<lambda>r. ''0'') [])) = Print (ConnectFailed 10 ''Connection refused'')"
  using bootstrap_all_attempts_fail
    [of "[]" "failing_engine (EngineError ''Connection refused'')" "\<lambda>r. ''0''"]
  by (simp add: setup_typesense_def max_retries_def upt_10 failing_engine_def
      client_collections_retrieve_def perform_def)

lemma Attempt_True_notin_failed_rounds: "Attempt True \<notin> set (failed_rounds d n)"
  by (auto simp add: failed_rounds_def)

text \<open>The loop is left by \<^verbatim>\<open>break\<close> exactly when one of its attempts succeeded, and
  never by the end of the range.\<close>

lemma connect_loop_exit:
  "(fst (connect_loop eng [0..<max_retries] d tr) = Break \<longleftrightarrow>
      Attempt True \<in> set (schedule (drop (length tr)
                                     (snd (connect_loop eng [0..<max_retries] d tr)))))
   \<and> fst (connect_loop eng [0..<max_retries] d tr) \<noteq> Exhausted"
proof -
  have "0 < max_retries"
    by (simp add: max_retries_def)
  from connect_loop_run[OF this, of eng d tr]
  obtain n ok new where
    run: "connect_loop eng [0..<max_retries] d tr = (if ok then Break else Return, tr @ new)"
    and sch: "schedule new = failed_rounds d n @ [Attempt ok]"
    by auto
  show ?thesis
    using Attempt_True_notin_failed_rounds[of d n]
    by (cases ok) (simp_all add: run sch)
qed

text \<open>
  Claim C6. When the loop is left by \<^verbatim>\<open>break\<close> (an attempt succeeded), the function
  deletes the demo collection and goes on whatever the delete raised, creates the
  collection from the fixed schema, and imports the sample records; a failure of the
  create or of the import ends the phase, is printed, and is not raised: the function
  returns in every case.
\<close>

theorem bootstrap_populate:
  assumes "connect_loop eng [0..<max_retries] 2 tr = (Break, tr1)"
  shows "setup_typesense eng flt tr =
     (let deleted = collection_delete eng tr1 COLLECTION_NAME;
          tr2 = tr1 @ [Call (CollectionDelete COLLECTION_NAME) (failure deleted)];
          created = collections_create eng tr2 COLLECTION_SCHEMA;
          tr3 = tr2 @ [Call (CollectionsCreate COLLECTION_SCHEMA) (failure created)]
      in case created of
           Inl e \<Rightarrow> (Inr (), tr3 @ [Print (SetupError (str_exn e))])
         | Inr c \<Rightarrow>
             (let imported = documents_import eng tr3 COLLECTION_NAME (sample_products flt);
                  tr4 = tr3 @ [Call (DocumentsImport COLLECTION_NAME (sample_products flt))
                                 (failure imported)]
              in case imported of
                   Inl e \<Rightarrow> (Inr (), tr4 @ [Print (SetupError (str_exn e))])
                 | Inr r \<Rightarrow> (Inr (), tr4 @ [Print SetupCompleted])))"
  by (simp add: setup_typesense_def assms populate_run Let_def split: sum.splits)

theorem bootstrap_populate_witness:
  "setup_typesense fresh_engine (\<lambda>r. ''0'') [] =
     (Inr (),
      [Call CollectionsRetrieve None, Print (Connected 1),
       Call (CollectionDelete ''products'')
         (Some (ObjectNotFound ''No collection with name products found'')),
       Call (CollectionsCreate COLLECTION_SCHEMA) None,
       Call (DocumentsImport ''products'' (sample_products (\<lambda>r. ''0''))) None,
       Print SetupCompleted])"
  using bootstrap_populate
    [of fresh_engine "[]" "[Call CollectionsRetrieve None, Print (Connected 1)]" "\<lambda>r. ''0''"]
  by (simp add: max_retries_def upt_10 fresh_engine_def steady_engine_def COLLECTION_NAME_def
      client_collections_retrieve_def perform_def Let_def)

subsection \<open>The statistics of the engine\<close>

lemma length_search_answers: "length (search_answers eng cs tr) = length cs"
  by (induction cs arbitrary: tr) (simp_all add: Let_def)

lemma stats_loop_answers:
  "fst (stats_loop eng cs total_docs collection_stats tr) =
     (total_docs + sum_list (map counted (search_answers eng cs tr)),
      collection_stats @ map stats_entry (zip cs (search_answers eng cs tr)))"
proof (induction cs arbitrary: total_docs collection_stats tr)
  case Nil
  show ?case by simp
next
  case (Cons c cs)
  show ?case
  proof (cases "documents_search eng tr (c_name c) count_params")
    case (Inl e)
    then show ?thesis
      using Cons.IH
      by (simp add: client_documents_search_def perform_def count_params_def Let_def)
  next
    case (Inr r)
    then show ?thesis
      using Cons.IH
      by (simp add: client_documents_search_def perform_def count_params_def Let_def)
  qed
qed

text \<open>
  Claim C9. When the list of collections is retrieved, \<^verbatim>\<open>GET /admin/typesense/stats\<close>
  responds normally whatever the document-count searches do: a collection whose search
  raised has the entry with \<^verbatim>\<open>"unknown"\<close> as its document count and adds nothing to the
  total, which is the sum of the counts found by the searches that returned.
\<close>

theorem typesense_stats_unknown_counts:
  assumes "collections_retrieve eng tr = Inr cs"
  shows "fst (get_typesense_stats eng tr) =
     (let answers = search_answers eng cs (tr @ [Call CollectionsRetrieve None])
      in Inr (VDict [(''total_collections'', VInt (int (length cs))),
                     (''total_documents'', VInt (sum_list (map counted answers))),
                     (''collections'', VList (map stats_entry (zip cs answers)))]))
   \<and> length (search_answers eng cs (tr @ [Call CollectionsRetrieve None])) = length cs"
proof -
  obtain t s tr' where loop:
    "stats_loop eng cs 0 [] (tr @ [Call CollectionsRetrieve None]) = ((t, s), tr')"
    by (metis prod.exhaust)
  from stats_loop_answers[of eng cs 0 "[]" "tr @ [Call CollectionsRetrieve None]"] loop
  have "t = sum_list (map counted (search_answers eng cs (tr @ [Call CollectionsRetrieve None])))"
    and "s = map stats_entry (zip cs (search_answers eng cs (tr @ [Call CollectionsRetrieve None])))"
    by simp_all
  then show ?thesis
    using assms loop
    by (simp add: get_typesense_stats_def io_defs client_collections_retrieve_def Let_def
        length_search_answers)
qed

theorem typesense_stats_unknown_counts_witness:
  "fst (get_typesense_stats flaky_engine []) =
     Inr (VDict [(''total_collections'', VInt 3),
                 (''total_documents'', VInt 10),
                 (''collections'', VList
                    [VDict [(''name'', VStr ''products''), (''document_count'', VInt 5),
                            (''fields'', VInt 0)],
                     VDict [(''name'', VStr ''orders''), (''document_count'', VStr ''unknown''),
                            (''fields'', VInt 0)],
                     VDict [(''name'', VStr ''users''), (''document_count'', VInt 5),
                            (''fields'', VInt 0)]])])"
  using typesense_stats_unknown_counts [of flaky_engine "[]"]
  by (simp add: flaky_engine_def steady_engine_def no_results_def count_params_def
      fields_len_def Let_def)

subsection \<open>Failures of the engine, at every route\<close>

lemma failure_Some: "failure a = Some e \<longleftrightarrow> a = Inl e"
  by (cases a) simp_all

lemmas client_defs = client_collections_retrieve_def client_collections_create_def
  client_collection_retrieve_def client_collection_delete_def client_documents_search_def
  client_documents_create_def client_documents_import_def client_document_retrieve_def
  client_document_delete_def

lemma stats_loop_events:
  "\<exists>new. snd (stats_loop eng cs total_docs collection_stats tr) = tr @ new
        \<and> (\<forall>ev \<in> set new. \<exists>name ps r. ev = Call (DocumentsSearch name ps) r)"
proof (induction cs arbitrary: total_docs collection_stats tr)
  case Nil
  show ?case by simp
next
  case (Cons c cs)
  let ?a = "documents_search eng tr (c_name c) [(''q'', VStr ''*''), (''per_page'', VInt 0)]"
  let ?ev = "Call (DocumentsSearch (c_name c) [(''q'', VStr ''*''), (''per_page'', VInt 0)]) (failure ?a)"
  show ?case
  proof (cases ?a)
    case (Inl e)
    from Cons.IH[of total_docs _ "tr @ [?ev]"]
    obtain new where
      "snd (stats_loop eng cs total_docs
              (collection_stats @
                 [VDict [(''name'', VStr (c_name c)), (''document_count'', VStr ''unknown''),
                         (''fields'', VInt (fields_len c))]]) (tr @ [?ev])) = (tr @ [?ev]) @ new"
      "\<forall>ev \<in> set new. \<exists>name ps r. ev = Call (DocumentsSearch name ps) r"
      by blast
    then show ?thesis
      using Inl
      by (intro exI[of _ "?ev # new"]) (simp add: client_documents_search_def perform_def)
  next
    case (Inr sr)
    from Cons.IH[of "total_docs + found sr" _ "tr @ [?ev]"]
    obtain new where
      "snd (stats_loop eng cs (total_docs + found sr)
              (collection_stats @
                 [VDict [(''name'', VStr (c_name c)), (''document_count'', VInt (found sr)),
                         (''fields'', VInt (fields_len c))]]) (tr @ [?ev])) = (tr @ [?ev]) @ new"
      "\<forall>ev \<in> set new. \<exists>name ps r. ev = Call (DocumentsSearch name ps) r"
      by blast
    then show ?thesis
      using Inr
      by (intro exI[of _ "?ev # new"]) (simp add: client_documents_search_def perform_def Let_def)
  qed
qed

lemma get_typesense_stats_run:
  "get_typesense_stats eng tr =
     (case collections_retrieve eng tr of
        Inl e \<Rightarrow> (Inl (HTTPException 400 (''Failed to get Typesense stats: '' @ str_exn e)),
                  tr @ [Call CollectionsRetrieve (Some e)])
      | Inr cs \<Rightarrow>
          (case stats_loop eng cs 0 [] (tr @ [Call CollectionsRetrieve None]) of
             ((total_docs, collection_stats), tr') \<Rightarrow>
               (Inr (VDict [(''total_collections'', VInt (int (length cs))),
                            (''total_documents'', VInt total_docs),
                            (''collections'', VList collection_stats)]), tr')))"
  by (simp add: get_typesense_stats_def io_defs client_collections_retrieve_def
      split: sum.splits prod.splits)

lemma stats_failure:
  assumes "get_typesense_stats eng tr = (res, tr')"
    and "Call c (Some e) \<in> set (drop (length tr) tr')"
  shows "(c = CollectionsRetrieve \<longrightarrow>
            res = Inl (HTTPException 400 (''Failed to get Typesense stats: '' @ str_exn e)))
       \<and> (c \<noteq> CollectionsRetrieve \<longrightarrow> (\<exists>v. res = Inr v))"
proof (cases "collections_retrieve eng tr")
  case (Inl e')
  then show ?thesis
    using assms by (auto simp add: get_typesense_stats_run)
next
  case (Inr cs)
  obtain new where new:
    "snd (stats_loop eng cs 0 [] (tr @ [Call CollectionsRetrieve None])) =
       (tr @ [Call CollectionsRetrieve None]) @ new"
    "\<forall>ev \<in> set new. \<exists>name ps r. ev = Call (DocumentsSearch name ps) r"
    using stats_loop_events by blast
  from assms(1) Inr new(1) have tr': "tr' = tr @ [Call CollectionsRetrieve None] @ new"
    and res: "\<exists>v. res = Inr v"
    by (auto simp add: get_typesense_stats_run split: prod.splits)
  from assms(2) tr' have "Call c (Some e) \<in> set new"
    by simp
  with new(2) have "c \<noteq> CollectionsRetrieve"
    by auto
  with res show ?thesis
    by simp
qed

text \<open>
  Claim C2, as amended. For every route but \<^verbatim>\<open>GET /health\<close>, a failure raised by a call
  to the engine while the request is handled (the document-count searches of
  \<^verbatim>\<open>GET /admin/typesense/stats\<close> apart) makes the handler raise the HTTP error whose
  status is 404 for the three look-ups and 400 otherwise, and whose detail is the
  route's own prefix followed by the message of the failure. \<^verbatim>\<open>GET /health\<close> returns
  a degraded status with the message instead, and the statistics route returns normally
  when one of its document-count searches fails.
\<close>

theorem engine_failure_http_error:
  assumes "handle eng fmt req tr = (res, tr')"
    and "Call c (Some e) \<in> set (drop (length tr) tr')"
  shows "(req \<noteq> GetHealth \<and> (req = GetAdminTypesenseStats \<longrightarrow> c = CollectionsRetrieve) \<longrightarrow>
            res = Inl (HTTPException (error_status req) (error_prefix req @ str_exn e)))
       \<and> (req = GetHealth \<longrightarrow>
            res = Inr (VDict [(''status'', VStr ''degraded''), (''typesense'', VBool False),
                              (''error'', VStr (str_exn e))]))
       \<and> (req = GetAdminTypesenseStats \<and> c \<noteq> CollectionsRetrieve \<longrightarrow> (\<exists>v. res = Inr v))"
proof (cases req)
  case GetAdminTypesenseStats
  then show ?thesis
    using assms stats_failure[of eng tr res tr' c e] by simp
next
  case GetRoot
  then show ?thesis
    using assms by (auto simp add: root_def)
next
  case GetHealth
  then show ?thesis
    using assms
    by (auto simp add: health_check_def client_defs perform_def failure_Some split: sum.splits)
next
  case (GetProducts limit offset)
  then show ?thesis
    using assms
    by (auto simp add: get_all_products_def get_all_products_try_def io_defs client_defs
        floordiv_def getitem_def failure_Some Let_def split: sum.splits if_splits)
next
  case (PostProducts product)
  then show ?thesis
    using assms
    by (auto simp add: add_product_def io_defs client_defs failure_Some split: sum.splits)
next
  case (GetProduct product_id)
  then show ?thesis
    using assms
    by (auto simp add: get_product_def io_defs client_defs failure_Some split: sum.splits)
next
  case (DeleteProduct product_id)
  then show ?thesis
    using assms
    by (auto simp add: delete_product_def io_defs client_defs failure_Some split: sum.splits)
next
  case (PostSearch search_query)
  then show ?thesis
    using assms
    by (auto simp add: search_products_def io_defs client_defs failure_Some split: sum.splits)
next
  case GetAdminCollections
  then show ?thesis
    using assms
    by (auto simp add: get_all_collections_def io_defs client_defs failure_Some split: sum.splits)
next
  case (GetAdminCollection collection_name)
  then show ?thesis
    using assms
    by (auto simp add: get_collection_info_def io_defs client_defs failure_Some split: sum.splits)
next
  case (GetAdminCollectionStats collection_name)
  then show ?thesis
    using assms
    by (auto simp add: get_collection_stats_def io_defs client_defs failure_Some split: sum.splits)
next
  case GetCategories
  then show ?thesis
    using assms
    by (auto simp add: get_categories_def io_defs client_defs failure_Some Let_def split: sum.splits)
next
  case (GetRecommendations product_id limit)
  then show ?thesis
    using assms
    by (auto simp add: get_recommendations_def io_defs client_defs failure_Some Let_def
        split: sum.splits)
qed

theorem engine_failure_http_error_witness:
  "handle (failing_engine (ObjectNotFound ''Could not find a document with id: 42''))
     (\<lambda>p. p) (GetProduct ''42'') [] =
     (Inl (HTTPException 404 ''Product not found: Could not find a document with id: 42''),
      [Call (DocumentRetrieve ''products'' ''42'')
         (Some (ObjectNotFound ''Could not find a document with id: 42''))])"
  using engine_failure_http_error
    [of "failing_engine (ObjectNotFound ''Could not find a document with id: 42'')"
        "\<lambda>p. p" "GetProduct ''42''" "[]"
        "Inl (HTTPException 404 ''Product not found: Could not find a document with id: 42'')"
        "[Call (DocumentRetrieve ''products'' ''42'')
            (Some (ObjectNotFound ''Could not find a document with id: 42''))]"
        "DocumentRetrieve ''products'' ''42''"
        "ObjectNotFound ''Could not find a document with id: 42''"]
  by (simp add: get_product_def io_defs client_document_retrieve_def failing_engine_def
      COLLECTION_NAME_def)

text \<open>
  Claim C2 as it is stated fails: the detail of the error is not the message of the
  failure but the message after a prefix, and \<^verbatim>\<open>GET /health\<close> raises no HTTP error
  when the engine fails.
\<close>

theorem engine_failure_detail_counterexample:
  "fst (handle (failing_engine (ObjectNotFound ''Could not find a document with id: 42''))
          (\<lambda>p. p) (GetProduct ''42'') []) =
     Inl (HTTPException 404 ''Product not found: Could not find a document with id: 42'')
   \<and> fst (handle (failing_engine (ObjectNotFound ''Could not find a document with id: 42''))
          (\<lambda>p. p) (GetProduct ''42'') []) \<noteq>
     Inl (HTTPException 404 (str_exn (ObjectNotFound ''Could not find a document with id: 42'')))
   \<and> fst (handle (failing_engine (EngineError ''Connection refused'')) (\<lambda>p. p) GetHealth []) =
     Inr (VDict [(''status'', VStr ''degraded''), (''typesense'', VBool False),
                 (''error'', VStr ''Connection refused'')])"
  by (simp add: get_product_def health_check_def io_defs client_document_retrieve_def
      client_collections_retrieve_def failing_engine_def)

end
